theory Spec2Isabelle
  imports Main
begin

section \<open>The audit logging service (src/services/audit-logging.service.ts)\<close>

text \<open>
  A shallow embedding of \<^verbatim>\<open>AuditLoggingService\<close>. The service is a set of static
  asynchronous methods over one external collaborator, the store handle
  \<^verbatim>\<open>prisma.auditLog\<close>, and the system clock. The embedding makes both explicit:
  the table is a list of rows in insertion order, the clock reading \<open>now\<close> is an
  argument (milliseconds since the epoch, an integer), and a rejected promise is
  the left summand of a sum type.
\<close>

subsection \<open>Enumerations\<close>

datatype AuditActionType =
    USER_CREATED | USER_UPDATED | USER_DELETED | USER_ACTIVATED | USER_DEACTIVATED
  | PERMISSION_GRANTED | PERMISSION_REVOKED | ROLE_CHANGED | ROLE_CREATED
  | ROLE_UPDATED | ROLE_DELETED
  | BULK_OPERATION_STARTED | BULK_OPERATION_COMPLETED | BULK_OPERATION_FAILED
  | SETTING_CHANGED | SETTINGS_EXPORTED | SETTINGS_IMPORTED
  | LOGIN | LOGOUT | FAILED_LOGIN | PASSWORD_CHANGED | MFA_ENABLED | MFA_DISABLED

datatype AuditSeverity = INFO | WARNING | CRITICAL

text \<open>Both are string enums: the value of a member is its own name.\<close>

fun actionType_string :: "AuditActionType \<Rightarrow> string" where
  "actionType_string USER_CREATED = ''USER_CREATED''"
| "actionType_string USER_UPDATED = ''USER_UPDATED''"
| "actionType_string USER_DELETED = ''USER_DELETED''"
| "actionType_string USER_ACTIVATED = ''USER_ACTIVATED''"
| "actionType_string USER_DEACTIVATED = ''USER_DEACTIVATED''"
| "actionType_string PERMISSION_GRANTED = ''PERMISSION_GRANTED''"
| "actionType_string PERMISSION_REVOKED = ''PERMISSION_REVOKED''"
| "actionType_string ROLE_CHANGED = ''ROLE_CHANGED''"
| "actionType_string ROLE_CREATED = ''ROLE_CREATED''"
| "actionType_string ROLE_UPDATED = ''ROLE_UPDATED''"
| "actionType_string ROLE_DELETED = ''ROLE_DELETED''"
| "actionType_string BULK_OPERATION_STARTED = ''BULK_OPERATION_STARTED''"
| "actionType_string BULK_OPERATION_COMPLETED = ''BULK_OPERATION_COMPLETED''"
| "actionType_string BULK_OPERATION_FAILED = ''BULK_OPERATION_FAILED''"
| "actionType_string SETTING_CHANGED = ''SETTING_CHANGED''"
| "actionType_string SETTINGS_EXPORTED = ''SETTINGS_EXPORTED''"
| "actionType_string SETTINGS_IMPORTED = ''SETTINGS_IMPORTED''"
| "actionType_string LOGIN = ''LOGIN''"
| "actionType_string LOGOUT = ''LOGOUT''"
| "actionType_string FAILED_LOGIN = ''FAILED_LOGIN''"
| "actionType_string PASSWORD_CHANGED = ''PASSWORD_CHANGED''"
| "actionType_string MFA_ENABLED = ''MFA_ENABLED''"
| "actionType_string MFA_DISABLED = ''MFA_DISABLED''"

fun severity_string :: "AuditSeverity \<Rightarrow> string" where
  "severity_string INFO = ''INFO''"
| "severity_string WARNING = ''WARNING''"
| "severity_string CRITICAL = ''CRITICAL''"

subsection \<open>JavaScript values that the service handles\<close>

text \<open>
  \<^verbatim>\<open>Record<string, any>\<close> payloads are JSON values. Strings are lists of 8-bit
  characters, read as the code units U+0000 to U+00FF; numbers are integers (the
  safe integers of a double, see \<open>json_representable\<close>); an object is its list
  of members in enumeration order. Equality of two such lists is stronger than
  deep equality of the objects, which does not look at the order of the members.
\<close>

datatype json =
    JNull
  | JBool bool
  | JNum int
  | JStr string
  | JArr "json list"
  | JObj "(string \<times> json) list"

type_synonym json_record = "(string \<times> json) list"

text \<open>
  What a promise can be rejected with. \<open>Unmodelled\<close> is not a JavaScript error: it
  marks a JSON text that lies outside the fragment above (a fraction, an exponent,
  an integer beyond the safe range, an escape above U+00FF), about which the
  embedding says nothing.
\<close>

datatype js_error = SyntaxError | StoreError string | Unmodelled

text \<open>JavaScript truthiness of a string, of an optional string, and \<^verbatim>\<open>x || d\<close>.\<close>

definition truthy_string :: "string \<Rightarrow> bool" where
  "truthy_string s = (s \<noteq> [])"

definition truthy_opt :: "string option \<Rightarrow> bool" where
  "truthy_opt x = (case x of None \<Rightarrow> False | Some s \<Rightarrow> truthy_string s)"

definition or_number :: "nat option \<Rightarrow> nat \<Rightarrow> nat" where
  "or_number x d = (case x of None \<Rightarrow> d | Some n \<Rightarrow> if n = 0 then d else n)"

definition or_string :: "string option \<Rightarrow> string \<Rightarrow> string" where
  "or_string x d = (case x of None \<Rightarrow> d | Some s \<Rightarrow> if truthy_string s then s else d)"

text \<open>\<^verbatim>\<open>xs.join(sep)\<close>, for strings and for any other lists.\<close>

fun join :: "'a list \<Rightarrow> 'a list list \<Rightarrow> 'a list" where
  "join sep [] = []"
| "join sep [x] = x"
| "join sep (x # y # ys) = x @ sep @ join sep (y # ys)"

text \<open>Decimal digits of a natural number, as \<^verbatim>\<open>String(n)\<close> prints them.\<close>

definition digit_char :: "nat \<Rightarrow> char" where
  "digit_char d = char_of (48 + d)"

fun digits :: "nat \<Rightarrow> string" where
  "digits n = (if n < 10 then [digit_char n] else digits (n div 10) @ [digit_char (n mod 10)])"

declare digits.simps [simp del]

definition int_string :: "int \<Rightarrow> string" where
  "int_string i = (if i < 0 then CHR ''-'' # digits (nat (- i)) else digits (nat i))"

abbreviation (input) DQUOTE :: char where "DQUOTE \<equiv> CHR 0x22"
abbreviation (input) BSLASH :: char where "BSLASH \<equiv> CHR 0x5C"

subsection \<open>The runtime's \<^verbatim>\<open>JSON.stringify\<close>\<close>

text \<open>
  Serialisation without indentation: no white space, members in enumeration order,
  strings quoted with the two-character escapes for the quote, the backslash and
  the five named control characters, and the six-character escape with four
  lower-case hexadecimal digits for the other characters below U+0020.
\<close>

definition hex_char :: "nat \<Rightarrow> char" where
  "hex_char d = (if d < 10 then char_of (48 + d) else char_of (87 + d))"

definition escape_char :: "char \<Rightarrow> string" where
  "escape_char c =
     (if c = DQUOTE then [BSLASH, DQUOTE]
      else if c = BSLASH then [BSLASH, BSLASH]
      else if c = CHR 0x08 then [BSLASH, CHR ''b'']
      else if c = CHR 0x0C then [BSLASH, CHR ''f'']
      else if c = CHR 0x0A then [BSLASH, CHR ''n'']
      else if c = CHR 0x0D then [BSLASH, CHR ''r'']
      else if c = CHR 0x09 then [BSLASH, CHR ''t'']
      else if of_char c < (32::nat)
        then [BSLASH, CHR ''u'', CHR ''0'', CHR ''0'',
              hex_char (of_char c div 16), hex_char (of_char c mod 16)]
      else [c])"

definition quote_json :: "string \<Rightarrow> string" where
  "quote_json s = DQUOTE # concat (map escape_char s) @ [DQUOTE]"

fun JSON_stringify :: "json \<Rightarrow> string" where
  "JSON_stringify JNull = ''null''"
| "JSON_stringify (JBool b) = (if b then ''true'' else ''false'')"
| "JSON_stringify (JNum n) = int_string n"
| "JSON_stringify (JStr s) = quote_json s"
| "JSON_stringify (JArr vs) = ''['' @ join '','' (map JSON_stringify vs) @ '']''"
| "JSON_stringify (JObj kvs) =
     ''{'' @ join '','' (map (\<lambda>kv. quote_json (fst kv) @ '':'' @ JSON_stringify (snd kv)) kvs) @ ''}''"

text \<open>
  The values that a JavaScript object graph can hold and JSON can carry: numbers
  within the safe integer range, and no object with two members of one name.
\<close>

definition max_safe_integer :: int where
  "max_safe_integer = 9007199254740991"


subsection \<open>The runtime's \<^verbatim>\<open>JSON.parse\<close>\<close>

text \<open>
  The text is cut into tokens, and the tokens drive a stack machine that builds the
  value. \<open>Inl SyntaxError\<close> is the exception that \<^verbatim>\<open>JSON.parse\<close> throws on a
  text outside the JSON grammar.
\<close>

datatype token =
    LBrace | RBrace | LBrack | RBrack | Colon | Comma
  | TStr string | TNum int | TTrue | TFalse | TNull

definition is_ws :: "char \<Rightarrow> bool" where
  "is_ws c = (c = CHR '' '' \<or> c = CHR 0x09 \<or> c = CHR 0x0A \<or> c = CHR 0x0D)"

definition is_digit :: "char \<Rightarrow> bool" where
  "is_digit c = (48 \<le> (of_char c :: nat) \<and> (of_char c :: nat) \<le> 57)"

definition hex_val :: "char \<Rightarrow> nat option" where
  "hex_val c =
     (let n = (of_char c :: nat) in
      if 48 \<le> n \<and> n \<le> 57 then Some (n - 48)
      else if 97 \<le> n \<and> n \<le> 102 then Some (n - 87)
      else if 65 \<le> n \<and> n \<le> 70 then Some (n - 55)
      else None)"

definition unescape :: "char \<Rightarrow> char option" where
  "unescape e =
     (if e = DQUOTE then Some DQUOTE
      else if e = BSLASH then Some BSLASH
      else if e = CHR ''/'' then Some CHR ''/''
      else if e = CHR ''b'' then Some (CHR 0x08)
      else if e = CHR ''f'' then Some (CHR 0x0C)
      else if e = CHR ''n'' then Some (CHR 0x0A)
      else if e = CHR ''r'' then Some (CHR 0x0D)
      else if e = CHR ''t'' then Some (CHR 0x09)
      else None)"

definition prepend :: "char \<Rightarrow> js_error + string \<times> string \<Rightarrow> js_error + string \<times> string" where
  "prepend c r = (case r of Inl e \<Rightarrow> Inl e | Inr (s, rest) \<Rightarrow> Inr (c # s, rest))"

text \<open>
  \<open>scan_string\<close> reads a string body after its opening quote and returns the
  decoded string with the text after the closing quote.
\<close>

fun scan_string :: "string \<Rightarrow> js_error + string \<times> string" where
  "scan_string [] = Inl SyntaxError"
| "scan_string (c # cs) =
     (if c = DQUOTE then Inr ([], cs)
      else if c = BSLASH then
        (case cs of
           [] \<Rightarrow> Inl SyntaxError
         | e # r \<Rightarrow>
             if e = CHR ''u'' then
               (case r of
                  a # b # x # y # r' \<Rightarrow>
                    (case (hex_val a, hex_val b, hex_val x, hex_val y) of
                       (Some h3, Some h2, Some h1, Some h0) \<Rightarrow>
                         if h3 = 0 \<and> h2 = 0
                         then prepend (char_of (16 * h1 + h0)) (scan_string r')
                         else Inl Unmodelled
                     | _ \<Rightarrow> Inl SyntaxError)
                | _ \<Rightarrow> Inl SyntaxError)
             else
               (case unescape e of
                  None \<Rightarrow> Inl SyntaxError
                | Some ch \<Rightarrow> prepend ch (scan_string r)))
      else if of_char c < (32::nat) then Inl SyntaxError
      else prepend c (scan_string cs))"

definition digits_value :: "string \<Rightarrow> nat" where
  "digits_value ds = foldl (\<lambda>a c. 10 * a + (of_char c - 48)) 0 ds"

text \<open>
  \<open>scan_number\<close> reads an integer: an optional minus sign, then \<^verbatim>\<open>0\<close> or a
  digit string without a leading zero.
\<close>

definition scan_number :: "string \<Rightarrow> js_error + int \<times> string" where
  "scan_number s =
     (let neg = (s \<noteq> [] \<and> hd s = CHR ''-'');
          s1 = (if neg then tl s else s);
          ds = takeWhile is_digit s1;
          r = dropWhile is_digit s1
      in if ds = [] then Inl SyntaxError
         else if hd ds = CHR ''0'' \<and> length ds > 1 then Inl SyntaxError
         else if r \<noteq> [] \<and> hd r \<in> {CHR ''.'', CHR ''e'', CHR ''E''} then Inl Unmodelled
         else if neg \<and> digits_value ds = 0 then Inl Unmodelled
         else if int (digits_value ds) > max_safe_integer then Inl Unmodelled
         else Inr (if neg then - int (digits_value ds) else int (digits_value ds), r))"

definition cons_token :: "token \<Rightarrow> js_error + token list \<Rightarrow> js_error + token list" where
  "cons_token t r = (case r of Inl e \<Rightarrow> Inl e | Inr ts \<Rightarrow> Inr (t # ts))"

lemma scan_string_length: "scan_string cs = Inr (s, r) \<Longrightarrow> length r < Suc (length cs)"
  by (induction cs arbitrary: s r rule: scan_string.induct)
     (fastforce simp: prepend_def split: if_splits list.splits option.splits sum.splits prod.splits)+

lemma scan_number_length: "scan_number cs = Inr (n, r) \<Longrightarrow> length r < length cs"
proof -
  assume a: "scan_number cs = Inr (n, r)"
  define s1 where "s1 = (if cs \<noteq> [] \<and> hd cs = CHR ''-'' then tl cs else cs)"
  from a have r: "r = dropWhile is_digit s1" and ne: "takeWhile is_digit s1 \<noteq> []"
    by (auto simp: scan_number_def Let_def s1_def split: if_splits)
  have "length (takeWhile is_digit s1) + length r = length s1"
    unfolding r by (metis length_append takeWhile_dropWhile_id)
  moreover have "length s1 \<le> length cs"
    by (simp add: s1_def)
  ultimately show ?thesis using ne by (cases "takeWhile is_digit s1") auto
qed

function tokenize :: "string \<Rightarrow> js_error + token list" where
  "tokenize [] = Inr []"
| "tokenize (c # cs) =
     (if is_ws c then tokenize cs
      else if c = CHR ''{'' then cons_token LBrace (tokenize cs)
      else if c = CHR ''}'' then cons_token RBrace (tokenize cs)
      else if c = CHR ''['' then cons_token LBrack (tokenize cs)
      else if c = CHR '']'' then cons_token RBrack (tokenize cs)
      else if c = CHR '':'' then cons_token Colon (tokenize cs)
      else if c = CHR '','' then cons_token Comma (tokenize cs)
      else if c = DQUOTE then
        (case scan_string cs of
           Inl e \<Rightarrow> Inl e
         | Inr (s, r) \<Rightarrow> cons_token (TStr s) (tokenize r))
      else if c = CHR ''-'' \<or> is_digit c then
        (case scan_number (c # cs) of
           Inl e \<Rightarrow> Inl e
         | Inr (n, r) \<Rightarrow> cons_token (TNum n) (tokenize r))
      else if take 4 (c # cs) = ''null'' then cons_token TNull (tokenize (drop 3 cs))
      else if take 4 (c # cs) = ''true'' then cons_token TTrue (tokenize (drop 3 cs))
      else if take 5 (c # cs) = ''false'' then cons_token TFalse (tokenize (drop 4 cs))
      else Inl SyntaxError)"
  by pat_completeness auto
termination
proof (relation "measure length", goal_cases)
  case (10 c cs x2 x y)
  then show ?case using scan_number_length [of "c # cs" x y] by simp
next
  case (9 c cs b x y)
  then show ?case using scan_string_length [of cs x y] by simp
qed simp_all

text \<open>
  The stack machine. A frame is an array or an object under construction; \<open>FKey\<close>
  is an object that has read a member name and its colon and waits for the value.
  Assigning a member that exists replaces its value in place, as property
  assignment does.
\<close>

datatype frame =
    FArr "json list"
  | FObj "(string \<times> json) list"
  | FKey "(string \<times> json) list" string

datatype pstate =
    PValue "frame list"
  | PFirst "frame list"
  | PKey "frame list"
  | PColon "frame list"
  | PAfter "frame list"
  | PDone json

definition obj_set :: "string \<Rightarrow> json \<Rightarrow> (string \<times> json) list \<Rightarrow> (string \<times> json) list" where
  "obj_set k v kvs =
     (if k \<in> set (map fst kvs)
      then map (\<lambda>kv. if fst kv = k then (k, v) else kv) kvs
      else kvs @ [(k, v)])"

fun deliver :: "json \<Rightarrow> frame list \<Rightarrow> pstate option" where
  "deliver v [] = Some (PDone v)"
| "deliver v (FArr acc # st) = Some (PAfter (FArr (acc @ [v]) # st))"
| "deliver v (FKey kvs k # st) = Some (PAfter (FObj (obj_set k v kvs) # st))"
| "deliver v (FObj kvs # st) = None"

fun value_token :: "frame list \<Rightarrow> token \<Rightarrow> pstate option" where
  "value_token st LBrack = Some (PFirst (FArr [] # st))"
| "value_token st LBrace = Some (PFirst (FObj [] # st))"
| "value_token st (TStr s) = deliver (JStr s) st"
| "value_token st (TNum n) = deliver (JNum n) st"
| "value_token st TTrue = deliver (JBool True) st"
| "value_token st TFalse = deliver (JBool False) st"
| "value_token st TNull = deliver JNull st"
| "value_token st _ = None"

definition step :: "pstate \<Rightarrow> token \<Rightarrow> pstate option" where
  "step p t =
     (case p of
        PValue st \<Rightarrow> value_token st t
      | PFirst st \<Rightarrow>
          (case st of
             FArr acc # st' \<Rightarrow> if t = RBrack then deliver (JArr acc) st' else value_token st t
           | FObj kvs # st' \<Rightarrow>
               (case t of
                  RBrace \<Rightarrow> deliver (JObj kvs) st'
                | TStr k \<Rightarrow> Some (PColon (FKey kvs k # st'))
                | _ \<Rightarrow> None)
           | _ \<Rightarrow> None)
      | PKey st \<Rightarrow>
          (case (st, t) of
             (FObj kvs # st', TStr k) \<Rightarrow> Some (PColon (FKey kvs k # st'))
           | _ \<Rightarrow> None)
      | PColon st \<Rightarrow> if t = Colon then Some (PValue st) else None
      | PAfter st \<Rightarrow>
          (case st of
             FArr acc # st' \<Rightarrow>
               if t = Comma then Some (PValue st)
               else if t = RBrack then deliver (JArr acc) st'
               else None
           | FObj kvs # st' \<Rightarrow>
               if t = Comma then Some (PKey st)
               else if t = RBrace then deliver (JObj kvs) st'
               else None
           | _ \<Rightarrow> None)
      | PDone v \<Rightarrow> None)"

fun run :: "pstate option \<Rightarrow> token list \<Rightarrow> pstate option" where
  "run None ts = None"
| "run (Some p) [] = Some p"
| "run (Some p) (t # ts) = run (step p t) ts"

definition JSON_parse :: "string \<Rightarrow> js_error + json" where
  "JSON_parse s =
     (case tokenize s of
        Inl e \<Rightarrow> Inl e
      | Inr ts \<Rightarrow> (case run (Some (PValue [])) ts of
                    Some (PDone v) \<Rightarrow> Inr v
                  | _ \<Rightarrow> Inl SyntaxError))"





subsection \<open>The runtime's \<^verbatim>\<open>Date.prototype.toISOString\<close>\<close>

text \<open>
  A \<^verbatim>\<open>Date\<close> is its time value, the milliseconds since 1970-01-01T00:00:00Z.
  The calendar date comes from the day number by the usual era arithmetic of the
  proleptic Gregorian calendar; years outside 0 to 9999 print with a sign and six
  digits.
\<close>

definition msPerDay :: int where
  "msPerDay = 86400000"

fun pad :: "nat \<Rightarrow> string \<Rightarrow> string" where
  "pad w s = replicate (w - length s) CHR ''0'' @ s"

definition civil_from_days :: "int \<Rightarrow> int \<times> int \<times> int" where
  "civil_from_days z0 =
     (let z = z0 + 719468;
          era = z div 146097;
          doe = z - era * 146097;
          yoe = (doe - doe div 1460 + doe div 36524 - doe div 146096) div 365;
          y = yoe + era * 400;
          doy = doe - (365 * yoe + yoe div 4 - yoe div 100);
          mp = (5 * doy + 2) div 153;
          d = doy - (153 * mp + 2) div 5 + 1;
          m = (if mp < 10 then mp + 3 else mp - 9)
      in (if m \<le> 2 then y + 1 else y, m, d))"

definition toISOString :: "int \<Rightarrow> string" where
  "toISOString t =
     (let (y, m, d) = civil_from_days (t div msPerDay);
          r = t mod msPerDay;
          year = (if 0 \<le> y \<and> y \<le> 9999 then pad 4 (digits (nat y))
                  else (if y < 0 then ''-'' else ''+'') @ pad 6 (digits (nat \<bar>y\<bar>)))
      in year @ ''-'' @ pad 2 (digits (nat m)) @ ''-'' @ pad 2 (digits (nat d)) @ ''T''
         @ pad 2 (digits (nat (r div 3600000))) @ '':''
         @ pad 2 (digits (nat (r div 60000 mod 60))) @ '':''
         @ pad 2 (digits (nat (r div 1000 mod 60))) @ ''.''
         @ pad 3 (digits (nat (r mod 1000))) @ ''Z'')"

subsection \<open>Data model\<close>

text \<open>
  \<^verbatim>\<open>AuditLogEntry\<close>, with the representation of the two payload fields as a type
  parameter: the caller passes an optional \<^verbatim>\<open>Record<string, any>\<close>, the table
  holds a nullable string, and a query returns a parsed value (\<open>JNull\<close> for
  \<^verbatim>\<open>null\<close>). An absent optional field and a \<^verbatim>\<open>null\<close> column are both \<open>None\<close>.
  A row of the table is the \<^verbatim>\<open>data\<close> object that \<^verbatim>\<open>logAuditEvent\<close> writes: the
  entry with its \<open>timestamp\<close>.
\<close>

record 'p AuditLogEntry =
  actionType :: AuditActionType
  severity :: AuditSeverity
  userId :: string
  tenantId :: string
  targetUserId :: "string option"
  targetResourceId :: "string option"
  targetResourceType :: "string option"
  description :: string
  changes :: 'p
  metadata :: 'p
  ipAddress :: "string option"
  userAgent :: "string option"

record 'p AuditLogRow = "'p AuditLogEntry" +
  timestamp :: int

type_synonym entry = "json_record option AuditLogEntry"
type_synonym stored_row = "string option AuditLogRow"
type_synonym log_row = "json AuditLogRow"

text \<open>
  \<^verbatim>\<open>AuditLogFilter\<close>. Its fields carry the prefix \<open>f_\<close>, since a record field is a
  constant and the entry has the unprefixed names. \<^verbatim>\<open>T | T[]\<close> is \<open>one_or_many\<close>;
  \<open>f_limit\<close> and \<open>f_offset\<close> are natural numbers (negative and fractional
  \<^verbatim>\<open>take\<close> and \<^verbatim>\<open>skip\<close> are outside the embedding).
\<close>

datatype 'a one_or_many = One 'a | Many "'a list"

record AuditLogFilter =
  f_userId :: "string option"
  f_tenantId :: string
  f_actionType :: "AuditActionType one_or_many option"
  f_targetUserId :: "string option"
  f_severity :: "AuditSeverity one_or_many option"
  f_dateRange :: "(int \<times> int) option"
  f_limit :: "nat option"
  f_offset :: "nat option"

subsection \<open>The store: \<^verbatim>\<open>prisma.auditLog\<close>\<close>

text \<open>
  The \<^verbatim>\<open>where\<close> object of a store call: equality or membership per column,
  bounds on the timestamp, all conditions conjoined.
\<close>

datatype 'a field_cond = Equals 'a | In_list "'a list"

record timestamp_cond =
  gte :: "int option"
  lte :: "int option"
  lt :: "int option"

record AuditLogWhere =
  w_tenantId :: string
  w_userId :: "string option"
  w_actionType :: "AuditActionType field_cond option"
  w_targetUserId :: "string option"
  w_severity :: "AuditSeverity field_cond option"
  w_timestamp :: "timestamp_cond option"

fun field_holds :: "'a field_cond \<Rightarrow> 'a \<Rightarrow> bool" where
  "field_holds (Equals v) x = (x = v)"
| "field_holds (In_list vs) x = (x \<in> set vs)"

definition timestamp_holds :: "timestamp_cond \<Rightarrow> int \<Rightarrow> bool" where
  "timestamp_holds c t =
     ((case gte c of None \<Rightarrow> True | Some b \<Rightarrow> b \<le> t) \<and>
      (case lte c of None \<Rightarrow> True | Some b \<Rightarrow> t \<le> b) \<and>
      (case lt c of None \<Rightarrow> True | Some b \<Rightarrow> t < b))"

definition matches :: "AuditLogWhere \<Rightarrow> stored_row \<Rightarrow> bool" where
  "matches wh r =
     (tenantId r = w_tenantId wh \<and>
      (case w_userId wh of None \<Rightarrow> True | Some u \<Rightarrow> userId r = u) \<and>
      (case w_actionType wh of None \<Rightarrow> True | Some c \<Rightarrow> field_holds c (actionType r)) \<and>
      (case w_targetUserId wh of None \<Rightarrow> True | Some u \<Rightarrow> targetUserId r = Some u) \<and>
      (case w_severity wh of None \<Rightarrow> True | Some c \<Rightarrow> field_holds c (severity r)) \<and>
      (case w_timestamp wh of None \<Rightarrow> True | Some c \<Rightarrow> timestamp_holds c (timestamp r)))"

text \<open>
  The table is the list of its rows in insertion order. \<open>findMany\<close> with
  \<^verbatim>\<open>orderBy: { timestamp: 'desc' }\<close>, \<^verbatim>\<open>take\<close> and \<^verbatim>\<open>skip\<close>; rows of equal
  timestamp keep their insertion order. \<open>deleteMany\<close> returns the remaining table
  and the \<^verbatim>\<open>count\<close> of the result.
\<close>

definition findMany :: "AuditLogWhere \<Rightarrow> nat \<Rightarrow> nat \<Rightarrow> stored_row list \<Rightarrow> stored_row list" where
  "findMany wh tk sk rows =
     take tk (drop sk (sort_key (\<lambda>r. - timestamp r) (filter (matches wh) rows)))"

definition deleteMany :: "AuditLogWhere \<Rightarrow> stored_row list \<Rightarrow> stored_row list \<times> nat" where
  "deleteMany wh rows = (filter (\<lambda>r. \<not> matches wh r) rows, length (filter (matches wh) rows))"

text \<open>
  \<open>create\<close> is the one store call whose failure a claim is about, so the service
  takes its behaviour as an argument: a function from the row and the table to an
  error or the new table. \<open>prisma_create\<close> is the behaviour of a working store.
\<close>

type_synonym create_op = "stored_row \<Rightarrow> stored_row list \<Rightarrow> js_error + stored_row list"

definition prisma_create :: create_op where
  "prisma_create r rows = Inr (rows @ [r])"

text \<open>
  What the service can change: the table, and the diagnostic channel
  (\<^verbatim>\<open>console.error\<close>), a list of messages with the error logged.
\<close>

record world =
  auditLog :: "stored_row list"
  console :: "(string \<times> js_error) list"

subsection \<open>The recorder\<close>

text \<open>
  \<open>logAuditEvent\<close>: the \<^verbatim>\<open>try\<close> block builds the row and awaits \<open>create\<close>; the
  \<^verbatim>\<open>catch\<close> block reports the error and falls through, so the promise resolves.
  A payload of type \<^verbatim>\<open>Record<string, any>\<close> is an object and therefore truthy
  whenever it is present.
\<close>

definition stringify_payload :: "json_record option \<Rightarrow> string option" where
  "stringify_payload p = (case p of None \<Rightarrow> None | Some c \<Rightarrow> Some (JSON_stringify (JObj c)))"

definition row_of_entry :: "entry \<Rightarrow> int \<Rightarrow> stored_row" where
  "row_of_entry entry now =
     \<lparr> actionType = actionType entry,
       severity = severity entry,
       userId = userId entry,
       tenantId = tenantId entry,
       targetUserId = targetUserId entry,
       targetResourceId = targetResourceId entry,
       targetResourceType = targetResourceType entry,
       description = description entry,
       changes = stringify_payload (changes entry),
       metadata = stringify_payload (metadata entry),
       ipAddress = ipAddress entry,
       userAgent = userAgent entry,
       timestamp = now \<rparr>"

definition logAuditEvent :: "create_op \<Rightarrow> entry \<Rightarrow> int \<Rightarrow> world \<Rightarrow> js_error + world" where
  "logAuditEvent create entry now w =
     (case create (row_of_entry entry now) (auditLog w) of
        Inr rows \<Rightarrow> Inr (w\<lparr>auditLog := rows\<rparr>)
      | Inl error \<Rightarrow> Inr (w\<lparr>console := console w @ [(''Failed to log audit event:'', error)]\<rparr>))"

definition logPermissionChange ::
  "create_op \<Rightarrow> string \<Rightarrow> string \<Rightarrow> string \<Rightarrow> string list \<Rightarrow> string list \<Rightarrow>
   json_record option \<Rightarrow> int \<Rightarrow> world \<Rightarrow> js_error + world" where
  "logPermissionChange create userId' tenantId' targetUserId' permissionsAdded permissionsRemoved
     metadata' now w =
     (let hasChanges = (length permissionsAdded > 0 \<or> length permissionsRemoved > 0) in
      if \<not> hasChanges then Inr w
      else logAuditEvent create
        \<lparr> actionType =
            (if length permissionsAdded > 0 then PERMISSION_GRANTED else PERMISSION_REVOKED),
          severity = INFO,
          userId = userId',
          tenantId = tenantId',
          targetUserId = Some targetUserId',
          targetResourceId = None,
          targetResourceType = Some ''USER_PERMISSIONS'',
          description =
            (if length permissionsAdded > 0 then ''Granted'' else ''Revoked'') @ '' ''
            @ digits (length permissionsAdded + length permissionsRemoved)
            @ '' permission(s) for '' @ targetUserId',
          changes = Some [(''added'', JArr (map JStr permissionsAdded)),
                          (''removed'', JArr (map JStr permissionsRemoved))],
          metadata = metadata',
          ipAddress = None,
          userAgent = None \<rparr> now w)"

definition logRoleChange ::
  "create_op \<Rightarrow> string \<Rightarrow> string \<Rightarrow> string \<Rightarrow> string \<Rightarrow> string \<Rightarrow> string option \<Rightarrow>
   int \<Rightarrow> world \<Rightarrow> js_error + world" where
  "logRoleChange create userId' tenantId' targetUserId' fromRole toRole reason now w =
     (let severity' = (if toRole \<in> set [''SUPER_ADMIN'', ''ADMIN''] then CRITICAL else INFO) in
      logAuditEvent create
        \<lparr> actionType = ROLE_CHANGED,
          severity = severity',
          userId = userId',
          tenantId = tenantId',
          targetUserId = Some targetUserId',
          targetResourceId = None,
          targetResourceType = Some ''USER_ROLE'',
          description =
            ''Changed role for '' @ targetUserId' @ '' from '' @ fromRole @ '' to '' @ toRole
            @ (if truthy_opt reason then '' ('' @ the reason @ '')'' else []),
          changes = Some [(''fromRole'', JStr fromRole), (''toRole'', JStr toRole)],
          metadata = (if truthy_opt reason then Some [(''reason'', JStr (the reason))] else None),
          ipAddress = None,
          userAgent = None \<rparr> now w)"

subsection \<open>The query service\<close>

text \<open>
  \<open>query_where\<close> is the \<^verbatim>\<open>where\<close> object that \<^verbatim>\<open>queryAuditLogs\<close> builds, one
  conditional assignment after the other. An enum member is a non-empty string and
  an array is an object, so a present \<^verbatim>\<open>actionType\<close> or \<^verbatim>\<open>severity\<close> is truthy.
\<close>

definition cond_of :: "'a one_or_many \<Rightarrow> 'a field_cond" where
  "cond_of x = (case x of Many xs \<Rightarrow> In_list xs | One v \<Rightarrow> Equals v)"

definition query_where :: "AuditLogFilter \<Rightarrow> AuditLogWhere" where
  "query_where flt =
     (let w0 = \<lparr> w_tenantId = f_tenantId flt, w_userId = None, w_actionType = None,
                 w_targetUserId = None, w_severity = None, w_timestamp = None \<rparr>;
          w1 = (if truthy_opt (f_userId flt) then w0\<lparr>w_userId := f_userId flt\<rparr> else w0);
          w2 = (case f_actionType flt of
                  Some a \<Rightarrow> w1\<lparr>w_actionType := Some (cond_of a)\<rparr>
                | None \<Rightarrow> w1);
          w3 = (if truthy_opt (f_targetUserId flt)
                then w2\<lparr>w_targetUserId := f_targetUserId flt\<rparr> else w2);
          w4 = (case f_severity flt of
                  Some s \<Rightarrow> w3\<lparr>w_severity := Some (cond_of s)\<rparr>
                | None \<Rightarrow> w3);
          w5 = (case f_dateRange flt of
                  Some (startDate, endDate) \<Rightarrow>
                    w4\<lparr>w_timestamp := Some \<lparr> gte = Some startDate, lte = Some endDate, lt = None \<rparr>\<rparr>
                | None \<Rightarrow> w4)
      in w5)"

text \<open>
  \<^verbatim>\<open>log.changes ? JSON.parse(log.changes) : null\<close>: a \<^verbatim>\<open>null\<close> column and the
  empty string are falsy; any other string goes to \<^verbatim>\<open>JSON.parse\<close>, outside any
  \<^verbatim>\<open>try\<close>.
\<close>

definition parse_payload :: "string option \<Rightarrow> js_error + json" where
  "parse_payload p = (if truthy_opt p then JSON_parse (the p) else Inr JNull)"

definition parse_row :: "stored_row \<Rightarrow> js_error + log_row" where
  "parse_row log =
     (case parse_payload (changes log) of
        Inl e \<Rightarrow> Inl e
      | Inr c \<Rightarrow>
          (case parse_payload (metadata log) of
             Inl e \<Rightarrow> Inl e
           | Inr m \<Rightarrow>
               Inr \<lparr> actionType = actionType log,
                     severity = severity log,
                     userId = userId log,
                     tenantId = tenantId log,
                     targetUserId = targetUserId log,
                     targetResourceId = targetResourceId log,
                     targetResourceType = targetResourceType log,
                     description = description log,
                     changes = c,
                     metadata = m,
                     ipAddress = ipAddress log,
                     userAgent = userAgent log,
                     timestamp = timestamp log \<rparr>))"

text \<open>\<^verbatim>\<open>logs.map(f)\<close> where \<open>f\<close> may throw: the first exception ends the loop.\<close>

fun map_throwing :: "('a \<Rightarrow> js_error + 'b) \<Rightarrow> 'a list \<Rightarrow> js_error + 'b list" where
  "map_throwing f [] = Inr []"
| "map_throwing f (x # xs) =
     (case f x of
        Inl e \<Rightarrow> Inl e
      | Inr y \<Rightarrow> (case map_throwing f xs of Inl e \<Rightarrow> Inl e | Inr ys \<Rightarrow> Inr (y # ys)))"

definition query_page :: "AuditLogFilter \<Rightarrow> world \<Rightarrow> stored_row list" where
  "query_page flt w =
     findMany (query_where flt) (or_number (f_limit flt) 100) (or_number (f_offset flt) 0)
       (auditLog w)"

definition queryAuditLogs :: "AuditLogFilter \<Rightarrow> world \<Rightarrow> js_error + log_row list" where
  "queryAuditLogs flt w = (let logs = query_page flt w in map_throwing parse_row logs)"

subsection \<open>The retention sweep\<close>

text \<open>
  \<^verbatim>\<open>cutoffDate.setDate(cutoffDate.getDate() - retentionDays)\<close> moves the date by
  whole calendar days of local time; the embedding takes local time at a fixed
  offset from UTC, where a calendar day is \<open>msPerDay\<close>, and a whole number of
  days. An absent \<open>retentionDays\<close> is the default 90.
\<close>

definition cutoffDate :: "int \<Rightarrow> int \<Rightarrow> int" where
  "cutoffDate now retentionDays = now - retentionDays * msPerDay"

definition delete_where :: "string \<Rightarrow> int \<Rightarrow> AuditLogWhere" where
  "delete_where tenantId' cutoff =
     \<lparr> w_tenantId = tenantId', w_userId = None, w_actionType = None, w_targetUserId = None,
       w_severity = None,
       w_timestamp = Some \<lparr> gte = None, lte = None, lt = Some cutoff \<rparr> \<rparr>"

definition deleteOldLogs :: "string \<Rightarrow> int option \<Rightarrow> int \<Rightarrow> world \<Rightarrow> nat \<times> world" where
  "deleteOldLogs tenantId' retentionDays now w =
     (let days = (case retentionDays of None \<Rightarrow> 90 | Some d \<Rightarrow> d);
          cutoff = cutoffDate now days;
          (rows, count) = deleteMany (delete_where tenantId' cutoff) (auditLog w)
      in (count, w\<lparr>auditLog := rows\<rparr>))"

subsection \<open>The exporter\<close>

text \<open>
  \<^verbatim>\<open>{ ...filter, tenantId, limit: 10000 }\<close>: the caller's filter, if any, with
  its tenant and its limit overwritten; every other field, the offset included, is
  the caller's.
\<close>

definition export_filter :: "string \<Rightarrow> AuditLogFilter option \<Rightarrow> AuditLogFilter" where
  "export_filter tenantId' flt =
     (case flt of
        None \<Rightarrow>
          \<lparr> f_userId = None, f_tenantId = tenantId', f_actionType = None, f_targetUserId = None,
            f_severity = None, f_dateRange = None, f_limit = Some 10000, f_offset = None \<rparr>
      | Some f \<Rightarrow> f\<lparr>f_tenantId := tenantId', f_limit := Some 10000\<rparr>)"

definition export_logs :: "string \<Rightarrow> AuditLogFilter option \<Rightarrow> world \<Rightarrow> js_error + log_row list" where
  "export_logs tenantId' flt w = queryAuditLogs (export_filter tenantId' flt) w"

definition csv_headers :: "string list" where
  "csv_headers = [''Timestamp'', ''Action Type'', ''Severity'', ''User ID'', ''Target User ID'',
     ''Resource Type'', ''Description'', ''IP Address'']"

definition csv_cells :: "log_row \<Rightarrow> string list" where
  "csv_cells log =
     [toISOString (timestamp log),
      actionType_string (actionType log),
      severity_string (severity log),
      userId log,
      or_string (targetUserId log) [],
      or_string (targetResourceType log) [],
      description log,
      or_string (ipAddress log) []]"

text \<open>\<^verbatim>\<open>String(cell).replace(/"/g, '""')\<close> between two quotes.\<close>

definition replace_quotes :: "string \<Rightarrow> string" where
  "replace_quotes s = concat (map (\<lambda>c. if c = DQUOTE then [DQUOTE, DQUOTE] else [c]) s)"

definition csv_cell :: "string \<Rightarrow> string" where
  "csv_cell cell = [DQUOTE] @ replace_quotes cell @ [DQUOTE]"

definition csv_row :: "log_row \<Rightarrow> string" where
  "csv_row log = join '','' (map csv_cell (csv_cells log))"

definition to_csv :: "log_row list \<Rightarrow> string" where
  "to_csv logs = join [CHR 0x0A] (join '','' csv_headers # map csv_row logs)"

definition exportAuditLogs :: "string \<Rightarrow> AuditLogFilter option \<Rightarrow> world \<Rightarrow> js_error + string" where
  "exportAuditLogs tenantId' flt w =
     (case export_logs tenantId' flt w of
        Inl e \<Rightarrow> Inl e
      | Inr logs \<Rightarrow> Inr (to_csv logs))"

subsection \<open>Concrete inputs\<close>

text \<open>
  Two tenants, a row each, a filter for the first tenant with every optional field
  absent, and an entry with both payloads.
\<close>

definition row_acme :: stored_row where
  "row_acme =
     \<lparr> actionType = LOGIN, severity = INFO, userId = ''alice'', tenantId = ''acme'',
       targetUserId = None, targetResourceId = None, targetResourceType = None,
       description = ''Signed in'', changes = None, metadata = None,
       ipAddress = None, userAgent = None, timestamp = 1000 \<rparr>"

definition row_globex :: stored_row where
  "row_globex = row_acme\<lparr>userId := ''bob'', tenantId := ''globex'', timestamp := 2000\<rparr>"

definition world_two :: world where
  "world_two = \<lparr> auditLog = [row_acme, row_globex], console = [] \<rparr>"

definition world_empty :: world where
  "world_empty = \<lparr> auditLog = [], console = [] \<rparr>"

definition filter_acme :: AuditLogFilter where
  "filter_acme =
     \<lparr> f_userId = None, f_tenantId = ''acme'', f_actionType = None, f_targetUserId = None,
       f_severity = None, f_dateRange = None, f_limit = None, f_offset = None \<rparr>"

definition log_acme :: log_row where
  "log_acme =
     \<lparr> actionType = LOGIN, severity = INFO, userId = ''alice'', tenantId = ''acme'',
       targetUserId = None, targetResourceId = None, targetResourceType = None,
       description = ''Signed in'', changes = JNull, metadata = JNull,
       ipAddress = None, userAgent = None, timestamp = 1000 \<rparr>"

definition entry_settings :: entry where
  "entry_settings =
     \<lparr> actionType = SETTING_CHANGED, severity = INFO, userId = ''alice'', tenantId = ''acme'',
       targetUserId = None, targetResourceId = Some ''billing'',
       targetResourceType = Some ''SETTINGS'', description = ''Updated billing settings'',
       changes = Some [(''currency'', JStr ''EUR''), (''net'', JNum 30)],
       metadata = None, ipAddress = Some ''10.0.0.1'', userAgent = None \<rparr>"

definition failing_create :: create_op where
  "failing_create r rows = Inl (StoreError ''connection lost'')"

definition row_malformed :: stored_row where
  "row_malformed = row_acme\<lparr>changes := Some ''{oops''\<rparr>"

definition world_malformed :: world where
  "world_malformed = \<lparr> auditLog = [row_malformed], console = [] \<rparr>"

definition world_big :: world where
  "world_big = \<lparr> auditLog = replicate 10001 row_acme, console = [] \<rparr>"

definition log_quoted :: log_row where
  "log_quoted = log_acme\<lparr>description := ''Say '' @ [DQUOTE] @ ''hi'' @ [DQUOTE] @ '', then'' @ [CHR 0x0A] @ ''leave''\<rparr>"

subsection \<open>A reader of strictly quoted records\<close>

text \<open>
  What the consumer of the export does with one record: every field stands between
  double quotes, a double quote inside a field is written twice, and a comma
  between two fields separates them. \<open>Expect\<close> waits for the opening quote of a
  field, \<open>Inside\<close> is within a field, \<open>Closing\<close> has read a quote within a field
  that either closes it or starts a doubled quote. The exporter's quoting is stated
  against this reader.
\<close>

datatype csv_state = Expect | Inside | Closing

fun read_csv_record :: "csv_state \<Rightarrow> string list \<Rightarrow> string \<Rightarrow> string \<Rightarrow> string list option" where
  "read_csv_record st fs cur [] = (if st = Closing then Some (fs @ [cur]) else None)"
| "read_csv_record Expect fs cur (c # cs) =
     (if c = DQUOTE then read_csv_record Inside fs [] cs else None)"
| "read_csv_record Inside fs cur (c # cs) =
     (if c = DQUOTE then read_csv_record Closing fs cur cs
      else read_csv_record Inside fs (cur @ [c]) cs)"
| "read_csv_record Closing fs cur (c # cs) =
     (if c = DQUOTE then read_csv_record Inside fs (cur @ [DQUOTE]) cs
      else if c = CHR '','' then read_csv_record Expect (fs @ [cur]) [] cs
      else None)"

subsection \<open>What a recorded entry should read back as\<close>





section \<open>Properties\<close>

subsection \<open>\<^verbatim>\<open>JSON.parse\<close> inverts \<^verbatim>\<open>JSON.stringify\<close>\<close>



























declare tokenize.simps [simp del]












subsection \<open>The store, the loop over its rows and the payloads\<close>

lemma map_throwing_length: "map_throwing f xs = Inr ys \<Longrightarrow> length ys = length xs"
  by (induction xs arbitrary: ys) (auto split: sum.splits)

lemma map_throwing_set:
  "map_throwing f xs = Inr ys \<Longrightarrow> y \<in> set ys \<Longrightarrow> \<exists>x \<in> set xs. f x = Inr y"
  by (induction xs arbitrary: ys) (auto split: sum.splits)

lemma map_throwing_member:
  "map_throwing f xs = Inr ys \<Longrightarrow> x \<in> set xs \<Longrightarrow> \<exists>y \<in> set ys. f x = Inr y"
  by (induction xs arbitrary: ys) (auto split: sum.splits)

lemma map_throwing_succeeds:
  "(\<And>x. x \<in> set xs \<Longrightarrow> \<exists>y. f x = Inr y) \<Longrightarrow> \<exists>ys. map_throwing f xs = Inr ys"
proof (induction xs)
  case Nil
  then show ?case by simp
next
  case (Cons a xs)
  obtain y where y: "f a = Inr y" using Cons.prems [of a] by auto
  obtain ys where ys: "map_throwing f xs = Inr ys" using Cons by auto
  show ?case by (simp add: y ys)
qed

lemma map_throwing_succeeds_iff:
  "(\<exists>ys. map_throwing f xs = Inr ys) \<longleftrightarrow> (\<forall>x \<in> set xs. \<exists>y. f x = Inr y)"
proof
  assume "\<exists>ys. map_throwing f xs = Inr ys"
  then show "\<forall>x \<in> set xs. \<exists>y. f x = Inr y"
    using map_throwing_member by fastforce
next
  assume "\<forall>x \<in> set xs. \<exists>y. f x = Inr y"
  then show "\<exists>ys. map_throwing f xs = Inr ys"
    using map_throwing_succeeds [of xs f] by blast
qed

lemma map_throwing_replicate:
  "f x = Inr y \<Longrightarrow> map_throwing f (replicate n x) = Inr (replicate n y)"
  by (induction n) simp_all

lemma sort_key_replicate: "sort_key k (replicate n x) = replicate n x"
proof (induction n)
  case 0
  then show ?case by simp
next
  case (Suc n)
  have "insort_key k x (replicate n x) = replicate (Suc n) x"
    by (induction n) simp_all
  with Suc show ?case by simp
qed

lemma findMany_subset: "set (findMany wh tk sk rows) \<subseteq> {r \<in> set rows. matches wh r}"
proof -
  have "set (findMany wh tk sk rows) \<subseteq> set (sort_key (\<lambda>r. - timestamp r) (filter (matches wh) rows))"
    unfolding findMany_def
    by (meson order_trans set_take_subset set_drop_subset)
  then show ?thesis by auto
qed

lemma findMany_length:
  "length (findMany wh tk sk rows) = min tk (length (filter (matches wh) rows) - sk)"
  by (simp add: findMany_def min.commute)

lemma query_where_tenant: "w_tenantId (query_where flt) = f_tenantId flt"
  by (simp add: query_where_def Let_def split: option.splits prod.splits)

lemma matches_tenant: "matches wh r \<Longrightarrow> tenantId r = w_tenantId wh"
  by (simp add: matches_def)

lemma query_where_limit [simp]:
  "query_where (flt\<lparr>f_limit := l\<rparr>) = query_where flt"
  "query_where (flt\<lparr>f_offset := k\<rparr>) = query_where flt"
  by (simp_all add: query_where_def Let_def cong: if_cong option.case_cong)

lemma parse_row_fields:
  assumes "parse_row r = Inr l"
  shows "actionType l = actionType r" "severity l = severity r" "userId l = userId r"
    "tenantId l = tenantId r" "targetUserId l = targetUserId r"
    "targetResourceId l = targetResourceId r" "targetResourceType l = targetResourceType r"
    "description l = description r" "ipAddress l = ipAddress r" "userAgent l = userAgent r"
    "timestamp l = timestamp r"
    "parse_payload (changes r) = Inr (changes l)" "parse_payload (metadata r) = Inr (metadata l)"
  using assms by (auto simp: parse_row_def split: sum.splits)

lemma parse_row_succeeds_iff:
  "(\<exists>l. parse_row r = Inr l) \<longleftrightarrow>
   (\<exists>c. parse_payload (changes r) = Inr c) \<and> (\<exists>m. parse_payload (metadata r) = Inr m)"
  by (auto simp: parse_row_def split: sum.splits)

lemma queryAuditLogs_length:
  "queryAuditLogs flt w = Inr logs \<Longrightarrow>
   length logs = min (or_number (f_limit flt) 100)
     (length (filter (matches (query_where flt)) (auditLog w)) - or_number (f_offset flt) 0)"
  by (auto simp: queryAuditLogs_def query_page_def findMany_length dest: map_throwing_length)


lemma matches_delete_where:
  "matches (delete_where t c) = (\<lambda>r. tenantId r = t \<and> timestamp r < c)"
  by (rule ext) (simp add: matches_def delete_where_def timestamp_holds_def)

lemma deleteOldLogs_eq:
  "deleteOldLogs t d now w =
     (length (filter (\<lambda>r. tenantId r = t \<and> timestamp r < cutoffDate now (case d of None \<Rightarrow> 90 | Some k \<Rightarrow> k))
        (auditLog w)),
      w\<lparr>auditLog := filter (\<lambda>r. \<not> (tenantId r = t \<and> timestamp r < cutoffDate now (case d of None \<Rightarrow> 90 | Some k \<Rightarrow> k)))
        (auditLog w)\<rparr>)"
  by (simp add: deleteOldLogs_def deleteMany_def Let_def matches_delete_where)

lemma logAuditEvent_prisma_create:
  "logAuditEvent prisma_create entry now w = Inr (w\<lparr>auditLog := auditLog w @ [row_of_entry entry now]\<rparr>)"
  by (simp add: logAuditEvent_def prisma_create_def)

lemma row_of_entry_fields:
  "actionType (row_of_entry entry now) = actionType entry"
  "severity (row_of_entry entry now) = severity entry"
  "tenantId (row_of_entry entry now) = tenantId entry"
  "timestamp (row_of_entry entry now) = now"
  by (simp_all add: row_of_entry_def)



lemma export_filter_fields:
  "f_limit (export_filter t flt) = Some 10000"
  "f_tenantId (export_filter t flt) = t"
  "f_offset (export_filter t flt) = (case flt of None \<Rightarrow> None | Some f \<Rightarrow> f_offset f)"
  by (simp_all add: export_filter_def split: option.splits)

subsection \<open>The reader of quoted records on the exporter's output\<close>

lemma read_inside:
  "read_csv_record Inside fs cur (replace_quotes s @ rest) = read_csv_record Inside fs (cur @ s) rest"
  by (induction s arbitrary: cur) (simp_all add: replace_quotes_def)

lemma read_cell:
  "read_csv_record Expect fs cur (csv_cell s @ rest) = read_csv_record Closing fs s rest"
  by (simp add: csv_cell_def read_inside)

lemma read_cells:
  "read_csv_record Expect fs cur (join '','' (map csv_cell (x # xs))) = Some (fs @ x # xs)"
proof (induction xs arbitrary: fs cur x)
  case Nil
  show ?case using read_cell [of fs cur x "[]"] by simp
next
  case (Cons y ys)
  show ?case
    using read_cell [of fs cur x "CHR '','' # join '','' (map csv_cell (y # ys))"]
      Cons [of "fs @ [x]" "[]" y]
    by simp
qed

lemma or_string_empty: "or_string x [] = (case x of None \<Rightarrow> [] | Some s \<Rightarrow> s)"
  by (simp add: or_string_def truthy_string_def split: option.splits)

subsection \<open>The concrete inputs evaluated\<close>

lemma parse_row_acme: "parse_row row_acme = Inr log_acme"
  by (simp add: parse_row_def parse_payload_def truthy_opt_def row_acme_def log_acme_def)

lemma query_where_acme:
  "query_where filter_acme = \<lparr> w_tenantId = ''acme'', w_userId = None, w_actionType = None,
     w_targetUserId = None, w_severity = None, w_timestamp = None \<rparr>"
  by (simp add: query_where_def filter_acme_def truthy_opt_def)

lemma matches_acme:
  "matches (query_where filter_acme) r \<longleftrightarrow> tenantId r = ''acme''"
  by (simp add: query_where_acme matches_def)

lemma filter_acme_fields:
  "f_limit filter_acme = None" "f_offset filter_acme = None" "f_tenantId filter_acme = ''acme''"
  by (simp_all add: filter_acme_def)

lemma query_page_two: "query_page filter_acme world_two = [row_acme]"
  by (simp add: query_page_def findMany_def matches_acme world_two_def or_number_def
      filter_acme_fields row_acme_def row_globex_def)

lemma queryAuditLogs_two: "queryAuditLogs filter_acme world_two = Inr [log_acme]"
  by (simp add: queryAuditLogs_def query_page_two parse_row_acme)

lemma query_page_one: 
  "tenantId r = ''acme'' \<Longrightarrow> query_page filter_acme \<lparr> auditLog = [r], console = [] \<rparr> = [r]"
  by (simp add: query_page_def findMany_def matches_acme or_number_def filter_acme_fields)

lemma JSON_parse_oops: "JSON_parse ''{oops'' = Inl SyntaxError"
  by (simp add: JSON_parse_def tokenize.simps is_ws_def is_digit_def cons_token_def)

lemma parse_row_malformed: "parse_row row_malformed = Inl SyntaxError"
  by (simp add: parse_row_def parse_payload_def truthy_opt_def truthy_string_def row_malformed_def
      row_acme_def JSON_parse_oops)

lemma tenantId_row_malformed: "tenantId row_malformed = ''acme''"
  by (simp add: row_malformed_def row_acme_def)

lemma query_where_export_acme:
  "query_where (export_filter ''acme'' (Some (filter_acme\<lparr>f_offset := k\<rparr>))) = query_where filter_acme"
  by (simp add: export_filter_def query_where_def filter_acme_def truthy_opt_def)

lemma export_filter_acme_fields:
  "f_limit (export_filter ''acme'' (Some (filter_acme\<lparr>f_offset := k\<rparr>))) = Some 10000"
  "f_offset (export_filter ''acme'' (Some (filter_acme\<lparr>f_offset := k\<rparr>))) = k"
  by (simp_all add: export_filter_def)

lemma filter_acme_big:
  "filter (matches (query_where filter_acme)) (replicate n row_acme) = replicate n row_acme"
  by (simp add: matches_acme row_acme_def)

lemma export_logs_big:
  "export_logs ''acme'' (Some (filter_acme\<lparr>f_offset := k\<rparr>)) world_big
     = Inr (replicate (min 10000 (10001 - or_number k 0)) log_acme)"
proof -
  have "query_page (export_filter ''acme'' (Some (filter_acme\<lparr>f_offset := k\<rparr>))) world_big
      = replicate (min 10000 (10001 - or_number k 0)) row_acme"
    by (simp add: query_page_def query_where_export_acme export_filter_acme_fields findMany_def
        world_big_def filter_acme_big sort_key_replicate or_number_def)
  then show ?thesis
    by (simp add: export_logs_def queryAuditLogs_def
        map_throwing_replicate [of parse_row row_acme log_acme] parse_row_acme)
qed





section \<open>The claims\<close>

text \<open>
  C1. For every filter and every world, the \<^verbatim>\<open>where\<close> object that
  \<open>queryAuditLogs\<close> builds has the filter's tenant as its tenant, every row on
  the selected page and every entry returned belongs to that tenant, whatever the
  other filter fields are; the \<^verbatim>\<open>where\<close> object of \<open>deleteOldLogs\<close> has the
  requested tenant, and the sweep leaves the rows of every other tenant as they
  were, in number and in order.
\<close>

theorem tenant_scoping:
  "w_tenantId (query_where flt) = f_tenantId flt \<and>
   (\<forall>r \<in> set (query_page flt w). tenantId r = f_tenantId flt) \<and>
   (\<forall>logs. queryAuditLogs flt w = Inr logs \<longrightarrow> (\<forall>l \<in> set logs. tenantId l = f_tenantId flt)) \<and>
   w_tenantId (delete_where t (cutoffDate now (case d of None \<Rightarrow> 90 | Some k \<Rightarrow> k))) = t \<and>
   filter (\<lambda>r. tenantId r \<noteq> t) (auditLog (snd (deleteOldLogs t d now w)))
     = filter (\<lambda>r. tenantId r \<noteq> t) (auditLog w)"
proof -
  have page: "tenantId r = f_tenantId flt" if "r \<in> set (query_page flt w)" for r
    using that findMany_subset [of "query_where flt"] matches_tenant [of "query_where flt" r]
    by (auto simp: query_page_def query_where_tenant)
  have logs: "tenantId l = f_tenantId flt" if "queryAuditLogs flt w = Inr logs" "l \<in> set logs" for logs l
  proof -
    from that obtain r where "r \<in> set (query_page flt w)" "parse_row r = Inr l"
      using map_throwing_set [of parse_row "query_page flt w" logs l]
      by (auto simp: queryAuditLogs_def)
    then show ?thesis using page parse_row_fields(4) by metis
  qed
  have del: "filter (\<lambda>r. tenantId r \<noteq> t) (auditLog (snd (deleteOldLogs t d now w)))
     = filter (\<lambda>r. tenantId r \<noteq> t) (auditLog w)"
    by (simp add: deleteOldLogs_eq) (metis (mono_tags, lifting) filter_cong)
  show ?thesis using page logs del
    by (simp add: query_where_tenant delete_where_def)
qed

theorem tenant_scoping_witness:
  "queryAuditLogs filter_acme world_two = Inr [log_acme] \<and> tenantId log_acme = f_tenantId filter_acme \<and>
   filter (\<lambda>r. tenantId r \<noteq> ''acme'') (auditLog (snd (deleteOldLogs ''acme'' (Some 0) 5000 world_two)))
     = [row_globex]"
proof -
  note t = tenant_scoping [of filter_acme world_two "''acme''" 5000 "Some 0"]
  have "tenantId log_acme = f_tenantId filter_acme"
    using t queryAuditLogs_two by simp
  moreover have "filter (\<lambda>r. tenantId r \<noteq> ''acme'') (auditLog world_two) = [row_globex]"
    by (simp add: world_two_def row_acme_def row_globex_def)
  ultimately show ?thesis using t queryAuditLogs_two by simp
qed

text \<open>
  C2, as stated, fails: \<open>queryAuditLogs\<close> calls \<^verbatim>\<open>JSON.parse\<close> outside any
  \<^verbatim>\<open>try\<close>, so a stored payload that is not JSON rejects the whole query. The
  table holds one row of the requested tenant whose \<open>changes\<close> column is an
  opening brace followed by a word (\<open>row_malformed\<close>); the filter matches the
  row, and the query is rejected with the parser's exception.
\<close>

theorem malformed_payload_counterexample:
  "matches (query_where filter_acme) row_malformed \<and>
   queryAuditLogs filter_acme world_malformed = Inl SyntaxError"
  by (simp add: queryAuditLogs_def world_malformed_def query_page_one tenantId_row_malformed
      parse_row_malformed matches_acme)

text \<open>
  C2, amended. An absent payload and the empty string become \<^verbatim>\<open>null\<close>; every
  other stored string goes to \<^verbatim>\<open>JSON.parse\<close> as it is; and the query returns
  entries exactly when both payloads of every row on the selected page are absent,
  empty or accepted by \<^verbatim>\<open>JSON.parse\<close>. Otherwise it is rejected and returns no
  entry.
\<close>

theorem malformed_payload_propagates:
  "parse_payload None = Inr JNull \<and>
   parse_payload (Some []) = Inr JNull \<and>
   (s \<noteq> [] \<longrightarrow> parse_payload (Some s) = JSON_parse s) \<and>
   ((\<exists>logs. queryAuditLogs flt w = Inr logs) \<longleftrightarrow>
    (\<forall>r \<in> set (query_page flt w).
       (\<exists>c. parse_payload (changes r) = Inr c) \<and> (\<exists>m. parse_payload (metadata r) = Inr m)))"
  by (simp add: parse_payload_def truthy_opt_def truthy_string_def queryAuditLogs_def
      map_throwing_succeeds_iff parse_row_succeeds_iff)

theorem malformed_payload_propagates_witness:
  "parse_payload (changes row_malformed) = Inl SyntaxError \<and>
   row_malformed \<in> set (query_page filter_acme world_malformed) \<and>
   \<not> (\<exists>logs. queryAuditLogs filter_acme world_malformed = Inr logs) \<and>
   (\<exists>logs. queryAuditLogs filter_acme world_two = Inr logs)"
proof -
  have p: "parse_payload (changes row_malformed) = Inl SyntaxError"
    by (simp add: parse_payload_def truthy_opt_def truthy_string_def row_malformed_def
        JSON_parse_oops)
  have m: "row_malformed \<in> set (query_page filter_acme world_malformed)"
    by (simp add: world_malformed_def query_page_one tenantId_row_malformed)
  have "\<not> (\<exists>logs. queryAuditLogs filter_acme world_malformed = Inr logs)"
    using malformed_payload_propagates [of "[]" filter_acme world_malformed] p m by auto
  moreover have "\<exists>logs. queryAuditLogs filter_acme world_two = Inr logs"
    using malformed_payload_propagates [of "[]" filter_acme world_two]
    by (simp add: query_page_two row_acme_def parse_payload_def truthy_opt_def)
  ultimately show ?thesis using p m by blast
qed

text \<open>
  C3. For every entry and every behaviour of the store's \<open>create\<close>, the promise
  of \<open>logAuditEvent\<close> resolves: when \<open>create\<close> succeeds the table is the one it
  returned, and when it fails with an error the table is unchanged and the error
  goes to the diagnostic channel only.
\<close>

theorem logAuditEvent_never_rejects:
  "\<exists>w'. logAuditEvent create entry now w = Inr w' \<and>
     (\<forall>rows. create (row_of_entry entry now) (auditLog w) = Inr rows \<longrightarrow>
        w' = w\<lparr>auditLog := rows\<rparr>) \<and>
     (\<forall>error. create (row_of_entry entry now) (auditLog w) = Inl error \<longrightarrow>
        w' = w\<lparr>console := console w @ [(''Failed to log audit event:'', error)]\<rparr>)"
  by (cases "create (row_of_entry entry now) (auditLog w)") (simp_all add: logAuditEvent_def)

theorem logAuditEvent_never_rejects_witness:
  "logAuditEvent failing_create entry_settings 1700000000000 world_empty
     = Inr \<lparr> auditLog = [], console = [(''Failed to log audit event:'', StoreError ''connection lost'')] \<rparr>"
  using logAuditEvent_never_rejects [of failing_create entry_settings 1700000000000 world_empty]
  by (auto simp: world_empty_def failing_create_def)





text \<open>
  C6. \<open>logPermissionChange\<close> with both lists empty changes nothing, whatever the
  store does (it is not called); with a non-empty \<open>permissionsAdded\<close> (and any
  \<open>permissionsRemoved\<close>) it appends exactly one row, of action type
  \<open>PERMISSION_GRANTED\<close>; with an empty \<open>permissionsAdded\<close> and a non-empty
  \<open>permissionsRemoved\<close> it appends exactly one row, of action type
  \<open>PERMISSION_REVOKED\<close>.
\<close>

theorem logPermissionChange_cases:
  "(permissionsAdded = [] \<and> permissionsRemoved = [] \<longrightarrow>
      logPermissionChange create u t tu permissionsAdded permissionsRemoved m now w = Inr w) \<and>
   (permissionsAdded \<noteq> [] \<longrightarrow>
      (\<exists>r. logPermissionChange prisma_create u t tu permissionsAdded permissionsRemoved m now w
            = Inr (w\<lparr>auditLog := auditLog w @ [r]\<rparr>) \<and> actionType r = PERMISSION_GRANTED)) \<and>
   (permissionsAdded = [] \<and> permissionsRemoved \<noteq> [] \<longrightarrow>
      (\<exists>r. logPermissionChange prisma_create u t tu permissionsAdded permissionsRemoved m now w
            = Inr (w\<lparr>auditLog := auditLog w @ [r]\<rparr>) \<and> actionType r = PERMISSION_REVOKED))"
  by (auto simp: logPermissionChange_def logAuditEvent_prisma_create row_of_entry_fields
      intro!: exI [where x = "row_of_entry e now" for e])

theorem logPermissionChange_cases_witness:
  "logPermissionChange failing_create ''root'' ''acme'' ''alice'' [] [] None 7 world_empty = Inr world_empty \<and>
   (\<exists>r. logPermissionChange prisma_create ''root'' ''acme'' ''alice'' [''read''] [''write''] None 7 world_empty
         = Inr \<lparr> auditLog = [r], console = [] \<rparr> \<and> actionType r = PERMISSION_GRANTED) \<and>
   (\<exists>r. logPermissionChange prisma_create ''root'' ''acme'' ''alice'' [] [''X''] None 7 world_empty
         = Inr \<lparr> auditLog = [r], console = [] \<rparr> \<and> actionType r = PERMISSION_REVOKED)"
  using logPermissionChange_cases [of "[]" "[]" failing_create "''root''" "''acme''" "''alice''" None 7 world_empty]
    logPermissionChange_cases [of "[''read'']" "[''write'']" failing_create "''root''" "''acme''" "''alice''" None 7 world_empty]
    logPermissionChange_cases [of "[]" "[''X'']" failing_create "''root''" "''acme''" "''alice''" None 7 world_empty]
  by (simp add: world_empty_def)

text \<open>
  C7. Every call of \<open>logRoleChange\<close> appends exactly one row, of action type
  \<open>ROLE_CHANGED\<close>, whose severity is \<open>CRITICAL\<close> exactly when the destination
  role is \<^verbatim>\<open>SUPER_ADMIN\<close> or \<^verbatim>\<open>ADMIN\<close> and \<open>INFO\<close> otherwise. There is no
  condition on \<open>fromRole\<close>: a change to the same role is recorded too.
\<close>

theorem logRoleChange_severity:
  "\<exists>r. logRoleChange prisma_create u t tu fromRole toRole reason now w
          = Inr (w\<lparr>auditLog := auditLog w @ [r]\<rparr>) \<and>
        actionType r = ROLE_CHANGED \<and>
        severity r = (if toRole = ''SUPER_ADMIN'' \<or> toRole = ''ADMIN'' then CRITICAL else INFO)"
  by (auto simp: logRoleChange_def logAuditEvent_prisma_create row_of_entry_fields Let_def
      intro!: exI [where x = "row_of_entry e now" for e])

theorem logRoleChange_severity_witness:
  "(\<exists>r. logRoleChange prisma_create ''root'' ''acme'' ''alice'' ''ADMIN'' ''ADMIN'' None 7 world_empty
          = Inr \<lparr> auditLog = [r], console = [] \<rparr> \<and> severity r = CRITICAL) \<and>
   (\<exists>r. logRoleChange prisma_create ''root'' ''acme'' ''alice'' ''VIEWER'' ''VIEWER'' None 7 world_empty
          = Inr \<lparr> auditLog = [r], console = [] \<rparr> \<and> severity r = INFO)"
  using logRoleChange_severity [of "''root''" "''acme''" "''alice''" "''ADMIN''" "''ADMIN''" None 7 world_empty]
    logRoleChange_severity [of "''root''" "''acme''" "''alice''" "''VIEWER''" "''VIEWER''" None 7 world_empty]
  by (simp add: world_empty_def) blast

text \<open>
  C8, as stated, fails for a filter with an offset: the exporter overwrites the
  limit of the caller's filter but keeps its offset. With 10001 matching rows and
  the offset 2, the export holds 9999 entries, not 10000.
\<close>

theorem export_cap_counterexample:
  "length (filter (matches (query_where (export_filter ''acme'' (Some (filter_acme\<lparr>f_offset := Some 2\<rparr>)))))
      (auditLog world_big)) = 10001 \<and>
   export_logs ''acme'' (Some (filter_acme\<lparr>f_offset := Some 2\<rparr>)) world_big
     = Inr (replicate 9999 log_acme)"
proof -
  have rows: "auditLog world_big = replicate 10001 row_acme"
    by (simp add: world_big_def)
  show ?thesis
    by (simp add: export_logs_big or_number_def query_where_export_acme rows filter_acme_big)
qed

text \<open>
  C8, amended. \<open>exportAuditLogs\<close> always queries with the limit 10000, whatever
  limit the caller's filter has, and keeps the caller's offset. When the export
  succeeds it holds \<open>min 10000 (m - offset)\<close> entries, where \<open>m\<close> rows match: never
  more than 10000, and exactly 10000 when more than 10000 matching rows remain
  after the offset (in particular when the offset is absent or 0).
\<close>

theorem export_cap:
  "f_limit (export_filter t flt) = Some 10000 \<and>
   (\<forall>logs. export_logs t flt w = Inr logs \<longrightarrow>
      length logs = min 10000
        (length (filter (matches (query_where (export_filter t flt))) (auditLog w))
         - or_number (case flt of None \<Rightarrow> None | Some f \<Rightarrow> f_offset f) 0)) \<and>
   (\<forall>csv. exportAuditLogs t flt w = Inr csv \<longrightarrow>
      (\<exists>logs. export_logs t flt w = Inr logs \<and> csv = to_csv logs))"
proof -
  have "length logs = min 10000
        (length (filter (matches (query_where (export_filter t flt))) (auditLog w))
         - or_number (case flt of None \<Rightarrow> None | Some f \<Rightarrow> f_offset f) 0)"
    if "export_logs t flt w = Inr logs" for logs
    using queryAuditLogs_length [of "export_filter t flt" w logs] that
    by (simp add: export_logs_def export_filter_fields or_number_def)
  then show ?thesis
    by (auto simp: export_filter_fields exportAuditLogs_def split: sum.splits)
qed

theorem export_cap_witness:
  "export_logs ''acme'' (Some (filter_acme\<lparr>f_limit := Some 20000\<rparr>)) world_big
      = Inr (replicate 10000 log_acme) \<and>
   length (replicate 10000 log_acme) = min 10000
        (length (filter (matches (query_where (export_filter ''acme'' (Some (filter_acme\<lparr>f_limit := Some 20000\<rparr>)))))
           (auditLog world_big)) - or_number None 0)"
proof -
  have same: "filter_acme\<lparr>f_limit := Some 20000\<rparr> = filter_acme\<lparr>f_offset := None, f_limit := Some 20000\<rparr>"
    by (simp add: filter_acme_def)
  have e: "export_filter ''acme'' (Some (filter_acme\<lparr>f_limit := Some 20000\<rparr>))
      = export_filter ''acme'' (Some (filter_acme\<lparr>f_offset := None\<rparr>))"
    by (simp add: export_filter_def filter_acme_def)
  have q: "export_logs ''acme'' (Some (filter_acme\<lparr>f_limit := Some 20000\<rparr>)) world_big
      = Inr (replicate 10000 log_acme)"
    using export_logs_big [of None] by (simp add: export_logs_def e or_number_def)
  have o: "f_offset (filter_acme\<lparr>f_limit := Some 20000\<rparr>) = None"
    by (simp add: filter_acme_def)
  show ?thesis
    using export_cap [of "''acme''" "Some (filter_acme\<lparr>f_limit := Some 20000\<rparr>)" world_big] q
    by (simp add: o)
qed

text \<open>
  C9. The row of an exported entry is its eight cells in the order timestamp,
  action type, severity, user id, target user id, resource type, description, IP
  address, joined by commas; a cell is the value between two double quotes with
  every double quote of the value written twice, and an absent optional value is
  the empty string. A reader of strictly quoted records gets the eight values back
  from the row, whatever characters they hold (commas and line breaks included).
  The value \<^verbatim>\<open>Say "hi"\<close> gives the cell \<^verbatim>\<open>"Say ""hi"""\<close>. The export is the
  header line and the rows, joined by line feeds.
\<close>

theorem csv_row_quoting:
  "read_csv_record Expect [] [] (csv_row log)
     = Some [toISOString (timestamp log), actionType_string (actionType log),
             severity_string (severity log), userId log,
             (case targetUserId log of None \<Rightarrow> [] | Some s \<Rightarrow> s),
             (case targetResourceType log of None \<Rightarrow> [] | Some s \<Rightarrow> s),
             description log,
             (case ipAddress log of None \<Rightarrow> [] | Some s \<Rightarrow> s)] \<and>
   csv_row log
     = join '','' (map (\<lambda>cell. [DQUOTE] @ concat (map (\<lambda>c. if c = DQUOTE then [DQUOTE, DQUOTE] else [c]) cell) @ [DQUOTE])
         [toISOString (timestamp log), actionType_string (actionType log),
          severity_string (severity log), userId log,
          (case targetUserId log of None \<Rightarrow> [] | Some s \<Rightarrow> s),
          (case targetResourceType log of None \<Rightarrow> [] | Some s \<Rightarrow> s),
          description log,
          (case ipAddress log of None \<Rightarrow> [] | Some s \<Rightarrow> s)]) \<and>
   csv_cell (''Say '' @ [DQUOTE] @ ''hi'' @ [DQUOTE])
     = [DQUOTE] @ ''Say '' @ [DQUOTE, DQUOTE] @ ''hi'' @ [DQUOTE, DQUOTE] @ [DQUOTE] \<and>
   (\<forall>csv. exportAuditLogs t flt w = Inr csv \<longrightarrow>
      (\<exists>logs. export_logs t flt w = Inr logs \<and>
         csv = join [CHR 0x0A] (join '','' csv_headers # map csv_row logs)))"
proof -
  have cells: "csv_cells log = [toISOString (timestamp log), actionType_string (actionType log),
             severity_string (severity log), userId log,
             (case targetUserId log of None \<Rightarrow> [] | Some s \<Rightarrow> s),
             (case targetResourceType log of None \<Rightarrow> [] | Some s \<Rightarrow> s),
             description log,
             (case ipAddress log of None \<Rightarrow> [] | Some s \<Rightarrow> s)]"
    by (simp add: csv_cells_def or_string_empty)
  have a: "read_csv_record Expect [] [] (csv_row log) = Some (csv_cells log)"
    unfolding csv_row_def cells by (simp only: read_cells append_Nil)
  have b: "csv_row log = join '','' (map (\<lambda>cell. [DQUOTE] @ concat (map (\<lambda>c. if c = DQUOTE then [DQUOTE, DQUOTE] else [c]) cell) @ [DQUOTE]) (csv_cells log))"
  proof -
    have "csv_cell = (\<lambda>cell. [DQUOTE] @ concat (map (\<lambda>c. if c = DQUOTE then [DQUOTE, DQUOTE] else [c]) cell) @ [DQUOTE])"
      by (rule ext) (simp add: csv_cell_def replace_quotes_def)
    then show ?thesis by (simp add: csv_row_def)
  qed
  have c: "csv_cell (''Say '' @ [DQUOTE] @ ''hi'' @ [DQUOTE])
     = [DQUOTE] @ ''Say '' @ [DQUOTE, DQUOTE] @ ''hi'' @ [DQUOTE, DQUOTE] @ [DQUOTE]"
    by (simp add: csv_cell_def replace_quotes_def)
  have d: "\<forall>csv. exportAuditLogs t flt w = Inr csv \<longrightarrow>
      (\<exists>logs. export_logs t flt w = Inr logs \<and>
         csv = join [CHR 0x0A] (join '','' csv_headers # map csv_row logs))"
    by (auto simp: exportAuditLogs_def to_csv_def split: sum.splits)
  show ?thesis using a b c d unfolding cells by blast
qed

theorem csv_row_quoting_witness:
  "read_csv_record Expect [] [] (csv_row log_quoted)
     = Some [''1970-01-01T00:00:01.000Z'', ''LOGIN'', ''INFO'', ''alice'', [], [],
             ''Say '' @ [DQUOTE] @ ''hi'' @ [DQUOTE] @ '', then'' @ [CHR 0x0A] @ ''leave'', []]"
proof -
  note c = csv_row_quoting [of log_quoted "''acme''" None world_empty, THEN conjunct1]
  have iso: "toISOString 1000 = ''1970-01-01T00:00:01.000Z''"
    by code_simp
  show ?thesis using c by (simp add: log_quoted_def log_acme_def iso)
qed

text \<open>
  C10. A limit of 0 is the absent limit and an offset of 0 is the absent offset:
  the query returns the same result. With the limit 0 the query returns
  \<open>min 100 (m - offset)\<close> entries, where \<open>m\<close> rows match, not zero entries.
\<close>

theorem zero_limit_is_default:
  "queryAuditLogs (flt\<lparr>f_limit := Some 0\<rparr>) w = queryAuditLogs (flt\<lparr>f_limit := None\<rparr>) w \<and>
   queryAuditLogs (flt\<lparr>f_offset := Some 0\<rparr>) w = queryAuditLogs (flt\<lparr>f_offset := None\<rparr>) w \<and>
   (\<forall>logs. queryAuditLogs (flt\<lparr>f_limit := Some 0\<rparr>) w = Inr logs \<longrightarrow>
      length logs = min 100 (length (filter (matches (query_where flt)) (auditLog w))
                             - or_number (f_offset flt) 0))"
proof -
  have a: "query_page (flt\<lparr>f_limit := Some 0\<rparr>) w = query_page (flt\<lparr>f_limit := None\<rparr>) w"
    by (simp add: query_page_def or_number_def)
  have b: "query_page (flt\<lparr>f_offset := Some 0\<rparr>) w = query_page (flt\<lparr>f_offset := None\<rparr>) w"
    by (simp add: query_page_def or_number_def)
  have c: "length (query_page (flt\<lparr>f_limit := Some 0\<rparr>) w)
      = min 100 (length (filter (matches (query_where flt)) (auditLog w)) - or_number (f_offset flt) 0)"
    by (simp add: query_page_def findMany_length or_number_def)
  show ?thesis using a b c
    by (auto simp: queryAuditLogs_def dest: map_throwing_length)
qed

theorem zero_limit_is_default_witness:
  "queryAuditLogs (filter_acme\<lparr>f_limit := Some 0\<rparr>) world_two = Inr [log_acme] \<and>
   length [log_acme] = min 100 (length (filter (matches (query_where filter_acme)) (auditLog world_two))
                                - or_number (f_offset filter_acme) 0)"
proof -
  note z = zero_limit_is_default [of filter_acme world_two]
  have same: "filter_acme\<lparr>f_limit := None\<rparr> = filter_acme"
    by (simp add: filter_acme_def)
  have q: "queryAuditLogs (filter_acme\<lparr>f_limit := Some 0\<rparr>) world_two = Inr [log_acme]"
    using z queryAuditLogs_two by (simp add: same)
  with z show ?thesis by blast
qed

end
